theory Spec2Isabelle
  imports Main "HOL-Library.Sublist" "HOL-Library.Product_Lexorder"
begin

section \<open>Configuration (config.py)\<close>

text \<open>
  Calendar dates are triples (year, month, day); the lexicographic order on triples is
  the chronological one. The CSV columns \<open>week_end\<close> and \<open>Date\<close> hold whole days, and a
  day at midnight is later than a cutoff instant exactly when its date is later than the
  cutoff's date, so comparing dates is what the comparisons of the source compute.
\<close>

type_synonym date = "nat \<times> nat \<times> nat"

definition CACHE_DAYS :: int where
  "CACHE_DAYS = 7"

definition EPEL_REPOS :: "string list" where
  "EPEL_REPOS = [''epel-8'', ''epel-9'', ''epel-10'']"

definition ERROR_DATES :: "date list" where
  "ERROR_DATES = [(2023, 5, 7), (2023, 5, 14), (2023, 10, 29), (2023, 11, 5)]"

definition DH_DISTROS :: "string list" where
  "DH_DISTROS = [''AlmaLinux'', ''CentOS Linux'', ''Oracle Linux Server'',
                 ''Red Hat Enterprise Linux'', ''Rocky Linux'']"

definition VALID_ROCKY_VERSIONS :: "string list" where
  "VALID_ROCKY_VERSIONS =
     [''8.3'', ''8.4'', ''8.5'', ''8.6'', ''8.7'', ''8.8'', ''8.9'', ''8.10'',
      ''9.0'', ''9.1'', ''9.2'', ''9.3'', ''9.4'', ''9.5'', ''9.6'',
      ''10.0'']"


section \<open>The fetcher (data\_utils.py: download\_file, \_download\_with\_progress)\<close>

text \<open>
  The exceptions the modelled code can raise. \<open>ConnectionError\<close> is what
  \<open>requests.get\<close> raises when the endpoint cannot be reached,
  \<open>ChunkedEncodingError\<close> what \<open>iter_content\<close> raises when the stream breaks,
  \<open>ValueError\<close> what \<open>int(...)\<close> raises on a Content-Length header that is not a
  number, \<open>KeyError\<close> what \<open>df[name]\<close> raises for a column that is not there.
\<close>

datatype error = ConnectionError | ChunkedEncodingError | ValueError | KeyError string

text \<open>
  The world the fetcher acts on: the directories, the regular files (content and
  modification time) and the log of the URLs requested so far. Times are the naive
  local datetimes the source compares, counted in microseconds, the resolution of
  \<open>datetime\<close>.
\<close>

record cache_file =
  content :: string
  mtime :: int

record world =
  dirs :: "string set"
  files :: "string \<rightharpoonup> cache_file"
  requested :: "string list"

datatype content_length = NoHeader | Numeric int | Malformed

record response =
  status :: nat
  length_header :: content_length
  chunks :: "string list"
  broken :: bool

datatype http_result = Unreachable | Response response

text \<open>\<open>os.path.join\<close> on POSIX paths.\<close>

definition path_join :: "string \<Rightarrow> string \<Rightarrow> string" where
  "path_join a b =
     (if take 1 b = ''/'' then b
      else if a = [] \<or> last a = CHR ''/'' then a @ b
      else a @ ''/'' @ b)"

definition path_exists :: "world \<Rightarrow> string \<Rightarrow> bool" where
  "path_exists w p \<longleftrightarrow> p \<in> dirs w \<or> files w p \<noteq> None"

definition makedirs :: "world \<Rightarrow> string \<Rightarrow> world" where
  "makedirs w d = w\<lparr>dirs := insert d (dirs w)\<rparr>"

definition timedelta_days :: "int \<Rightarrow> int" where
  "timedelta_days d = d * 86400000000"

text \<open>The loop \<open>for data in response.iter_content(...): file.write(data)\<close>.\<close>

fun write_chunks :: "string list \<Rightarrow> string \<Rightarrow> string" where
  "write_chunks [] written = written"
| "write_chunks (d # ds) written = write_chunks ds (written @ d)"

text \<open>
  \<open>_download_with_progress\<close>: the request, the read of the Content-Length header (used
  for the progress bar only), \<open>open(local_path, "wb")\<close>, which truncates the file, and
  the loop writing the chunks. The status of the response is never read. The progress
  bar and the printed messages are left out. The file written gets the time of the call
  as its modification time.
\<close>

definition download_with_progress ::
  "(string \<Rightarrow> http_result) \<Rightarrow> int \<Rightarrow> string \<Rightarrow> string \<Rightarrow> world \<Rightarrow> (error + unit) \<times> world" where
  "download_with_progress net now url local_path w =
     (let w1 = w\<lparr>requested := requested w @ [url]\<rparr> in
      case net url of
        Unreachable \<Rightarrow> (Inl ConnectionError, w1)
      | Response r \<Rightarrow>
          (case length_header r of
             Malformed \<Rightarrow> (Inl ValueError, w1)
           | _ \<Rightarrow>
               (let w2 = w1\<lparr>files := (files w1)(local_path \<mapsto>
                            \<lparr>content = write_chunks (chunks r) [], mtime = now\<rparr>)\<rparr>
                in if broken r then (Inl ChunkedEncodingError, w2) else (Inr (), w2))))"

text \<open>
  \<open>download_file\<close>: \<open>local_path\<close> names a regular file or nothing; \<open>mtime\<close> of the
  file is \<open>datetime.fromtimestamp(os.path.getmtime(local_path))\<close> and \<open>now\<close> is
  \<open>datetime.now()\<close>.
\<close>

definition download_file ::
  "(string \<Rightarrow> http_result) \<Rightarrow> int \<Rightarrow> string \<Rightarrow> string \<Rightarrow> string \<Rightarrow> world \<Rightarrow> (error + unit) \<times> world" where
  "download_file net now url local_dir local_file w =
     (let local_path = path_join local_dir local_file;
          w1 = (if \<not> path_exists w local_dir then makedirs w local_dir else w)
      in case files w1 local_path of
           Some f \<Rightarrow>
             (if now - mtime f > timedelta_days CACHE_DAYS
              then download_with_progress net now url local_path w1
              else (Inr (), w1))
         | None \<Rightarrow> download_with_progress net now url local_path w1)"


section \<open>The EPEL normalizer and the row filters (data\_utils.py)\<close>

text \<open>
  One row of the package-repository CSV, with the columns the source reads. A data
  frame of such rows is the list of its rows, each with its index label; \<open>pd.read_csv\<close>
  labels the rows $0, 1, 2, \ldots$ and every filter keeps the labels of the rows it keeps.
  The model starts from the parsed rows, every cell present.
\<close>

record usage_row =
  week_start :: date
  week_end :: date
  os_name :: string
  os_version :: string
  os_variant :: string
  os_arch :: string
  repo_tag :: string
  repo_arch :: string
  sys_age :: int
  hits :: int

type_synonym dataframe = "(nat \<times> usage_row) list"

definition read_csv :: "usage_row list \<Rightarrow> dataframe" where
  "read_csv rows = zip [0..<length rows] rows"

text \<open>A boolean column computed from the frame, as \<open>df['sys_age'] > 1\<close> is.\<close>

definition column_mask :: "(usage_row \<Rightarrow> bool) \<Rightarrow> dataframe \<Rightarrow> bool list" where
  "column_mask p df = map (\<lambda>(l, r). p r) df"

text \<open>\<open>df[mask]\<close>: the rows at which the mask is true, in the order of the frame.\<close>

definition getitem_mask :: "dataframe \<Rightarrow> bool list \<Rightarrow> dataframe" where
  "getitem_mask df keep = map fst (filter snd (zip df keep))"

text \<open>\<open>df.index\<close> and \<open>df.drop(labels)\<close>, which removes every row carrying one of the labels.\<close>

definition index_labels :: "dataframe \<Rightarrow> nat list" where
  "index_labels df = map fst df"

definition drop_labels :: "dataframe \<Rightarrow> nat list \<Rightarrow> dataframe" where
  "drop_labels df labels = filter (\<lambda>(l, r). l \<notin> set labels) df"

text \<open>The loop \<open>for error_date in ERROR_DATES: df = df.drop(df[df['week_end'] == error_date].index)\<close>.\<close>

fun drop_error_dates :: "date list \<Rightarrow> dataframe \<Rightarrow> dataframe" where
  "drop_error_dates [] df = df"
| "drop_error_dates (error_date # rest) df =
     drop_error_dates rest
       (drop_labels df
          (index_labels (getitem_mask df (column_mask (\<lambda>r. week_end r = error_date) df))))"

text \<open>\<open>load_epel_data\<close>, from the rows \<open>pd.read_csv\<close> returns on.\<close>

definition load_epel_data :: "usage_row list \<Rightarrow> dataframe" where
  "load_epel_data rows =
     (let df = read_csv rows;
          df = getitem_mask df (column_mask (\<lambda>r. repo_tag r \<in> set EPEL_REPOS) df)
      in drop_error_dates ERROR_DATES df)"

text \<open>
  The filters. \<open>date_column\<close> is the column \<open>filter_by_date\<close> reads (\<open>week_end\<close> by
  default). The argument of \<open>filter_by_system_age\<close> is any Python object: a string, an
  \<open>int\<close> (the booleans are the ints 1 and 0), or something else (\<open>None\<close>, a float).
\<close>

definition filter_by_date :: "dataframe \<Rightarrow> date \<Rightarrow> (usage_row \<Rightarrow> date) \<Rightarrow> dataframe" where
  "filter_by_date df start_date date_column =
     getitem_mask df (column_mask (\<lambda>r. date_column r > start_date) df)"

datatype age_condition = PyStr string | PyInt int | PyOther

definition filter_by_system_age :: "dataframe \<Rightarrow> age_condition \<Rightarrow> dataframe" where
  "filter_by_system_age df age_condition =
     (if age_condition = PyStr ''longterm'' then getitem_mask df (column_mask (\<lambda>r. sys_age r > 1) df)
      else if age_condition = PyStr ''ephemeral'' then getitem_mask df (column_mask (\<lambda>r. sys_age r = 1) df)
      else (case age_condition of
              PyInt n \<Rightarrow> getitem_mask df (column_mask (\<lambda>r. sys_age r > n) df)
            | _ \<Rightarrow> df))"

definition filter_by_repo_tag :: "dataframe \<Rightarrow> string \<Rightarrow> dataframe" where
  "filter_by_repo_tag df tag = getitem_mask df (column_mask (\<lambda>r. repo_tag r = tag) df)"

definition filter_by_os_name :: "dataframe \<Rightarrow> string \<Rightarrow> dataframe" where
  "filter_by_os_name df name = getitem_mask df (column_mask (\<lambda>r. os_name r = name) df)"

definition filter_by_arch :: "dataframe \<Rightarrow> string \<Rightarrow> dataframe" where
  "filter_by_arch df arch_filter =
     (if arch_filter = ''altarch''
      then getitem_mask df (column_mask (\<lambda>r. repo_arch r \<noteq> ''x86_64'') df)
      else getitem_mask df (column_mask (\<lambda>r. repo_arch r = arch_filter) df))"

definition filter_valid_rocky_versions :: "dataframe \<Rightarrow> dataframe" where
  "filter_valid_rocky_versions df =
     getitem_mask df (column_mask (\<lambda>r. os_version r \<in> set VALID_ROCKY_VERSIONS) df)"


section \<open>The container normalizer (data\_utils.py: load\_dockerhub\_data)\<close>

text \<open>
  A frame with named columns: the index and the columns in their order. The parsed
  container CSV has the dates as index and one column of integer counters per image
  tag. After \<open>diff\<close> a cell is a number or NaN (\<open>None\<close>).
\<close>

record ('i, 'c) frame =
  index :: "'i list"
  columns :: "(string \<times> 'c) list"

type_synonym cell = "int option"

fun diff_column :: "int list \<Rightarrow> cell list" where
  "diff_column [] = []"
| "diff_column (v # vs) = None # map2 (\<lambda>prev cur. Some (cur - prev)) (v # vs) vs"

definition diff :: "('i, int list) frame \<Rightarrow> ('i, cell list) frame" where
  "diff df = \<lparr>index = index df, columns = map (\<lambda>(name, c). (name, diff_column c)) (columns df)\<rparr>"

text \<open>\<open>.iloc[1:]\<close>: every row but the first.\<close>

definition iloc_from_1 :: "('i, 'a list) frame \<Rightarrow> ('i, 'a list) frame" where
  "iloc_from_1 df =
     \<lparr>index = drop 1 (index df), columns = map (\<lambda>(name, c). (name, drop 1 c)) (columns df)\<rparr>"

text \<open>\<open>df[name]\<close> raises KeyError for a name that is no column.\<close>

definition getitem :: "('i, 'c) frame \<Rightarrow> string \<Rightarrow> error + 'c" where
  "getitem df name =
     (case map_of (columns df) name of None \<Rightarrow> Inl (KeyError name) | Some c \<Rightarrow> Inr c)"

text \<open>\<open>df[name] = c\<close>: replaces the column of that name where it stands, or appends it.\<close>

fun assign_column :: "string \<Rightarrow> 'c \<Rightarrow> (string \<times> 'c) list \<Rightarrow> (string \<times> 'c) list" where
  "assign_column name c [] = [(name, c)]"
| "assign_column name c ((name', c') # cols) =
     (if name' = name then (name, c) # cols else (name', c') # assign_column name c cols)"

definition setitem :: "('i, 'c) frame \<Rightarrow> string \<Rightarrow> 'c \<Rightarrow> ('i, 'c) frame" where
  "setitem df name c = df\<lparr>columns := assign_column name c (columns df)\<rparr>"

text \<open>The sum of two columns of one frame, row by row; NaN plus anything is NaN.\<close>

definition cell_add :: "cell \<Rightarrow> cell \<Rightarrow> cell" where
  "cell_add a b = (case (a, b) of (Some x, Some y) \<Rightarrow> Some (x + y) | _ \<Rightarrow> None)"

definition series_add :: "cell list \<Rightarrow> cell list \<Rightarrow> cell list" where
  "series_add a b = map2 cell_add a b"

text \<open>
  An expression \<open>df[n1] + df[n2] + ... + df[nk]\<close>, evaluated from the left as Python
  does: \<open>acc\<close> is the sum so far, and the first name that is no column raises.
\<close>

fun add_columns :: "('i, cell list) frame \<Rightarrow> cell list \<Rightarrow> string list \<Rightarrow> error + cell list" where
  "add_columns df acc [] = Inr acc"
| "add_columns df acc (name # names) =
     (case getitem df name of
        Inl e \<Rightarrow> Inl e
      | Inr c \<Rightarrow> add_columns df (series_add acc c) names)"

definition sum_of_columns :: "('i, cell list) frame \<Rightarrow> string \<Rightarrow> string list \<Rightarrow> error + cell list" where
  "sum_of_columns df name names =
     (case getitem df name of Inl e \<Rightarrow> Inl e | Inr c \<Rightarrow> add_columns df c names)"

text \<open>\<open>pd.DataFrame(index=..., columns=...)\<close>: every cell NaN.\<close>

definition empty_frame :: "'i list \<Rightarrow> string list \<Rightarrow> ('i, cell list) frame" where
  "empty_frame idx names =
     \<lparr>index = idx, columns = map (\<lambda>name. (name, replicate (length idx) None)) names\<rparr>"

text \<open>
  \<open>load_dockerhub_data\<close>, from the frame \<open>pd.read_csv(..., index_col=0)\<close> returns on.
  The five assignments of the source, in their order; each right-hand side is
  evaluated before its assignment, and the first exception ends the call.
\<close>

definition load_dockerhub_data :: "(date, int list) frame \<Rightarrow> error + (date, cell list) frame" where
  "load_dockerhub_data raw =
     (let df = iloc_from_1 (diff raw);
          dh_dataframe = empty_frame (index df) DH_DISTROS
      in case sum_of_columns df ''library/almalinux''
                [''almalinux/8-base'', ''almalinux/8-init'', ''almalinux/8-micro'',
                 ''almalinux/8-minimal'', ''almalinux/9-base'', ''almalinux/9-init'',
                 ''almalinux/9-micro'', ''almalinux/9-minimal'', ''almalinux/almalinux'',
                 ''almalinux/amd64'', ''almalinux/arm64v8'', ''almalinux/i386'',
                 ''almalinux/ppc64le'', ''almalinux/s390x''] of
           Inl e \<Rightarrow> Inl e
         | Inr alma \<Rightarrow>
      (let dh_dataframe = setitem dh_dataframe ''AlmaLinux'' alma
       in case getitem df ''library/centos'' of
            Inl e \<Rightarrow> Inl e
          | Inr centos \<Rightarrow>
      (let dh_dataframe = setitem dh_dataframe ''CentOS Linux'' centos
       in case getitem df ''library/oraclelinux'' of
            Inl e \<Rightarrow> Inl e
          | Inr oracle \<Rightarrow>
      (let dh_dataframe = setitem dh_dataframe ''Oracle Linux Server'' oracle
       in case sum_of_columns df ''redhat/ubi8''
                 [''redhat/ubi8-init'', ''redhat/ubi8-micro'', ''redhat/ubi8-minimal'',
                  ''redhat/ubi9'', ''redhat/ubi9-init'', ''redhat/ubi9-micro'',
                  ''redhat/ubi9-minimal''] of
            Inl e \<Rightarrow> Inl e
          | Inr rhel \<Rightarrow>
      (let dh_dataframe = setitem dh_dataframe ''Red Hat Enterprise Linux'' rhel
       in case sum_of_columns df ''library/rockylinux'' [''rockylinux/rockylinux''] of
            Inl e \<Rightarrow> Inl e
          | Inr rocky \<Rightarrow> Inr (setitem dh_dataframe ''Rocky Linux'' rocky))))))"

text \<open>The image-tag columns the five expressions read, in the order they are read.\<close>

definition raw_columns :: "string list" where
  "raw_columns =
     [''library/almalinux'', ''almalinux/8-base'', ''almalinux/8-init'', ''almalinux/8-micro'',
      ''almalinux/8-minimal'', ''almalinux/9-base'', ''almalinux/9-init'',
      ''almalinux/9-micro'', ''almalinux/9-minimal'', ''almalinux/almalinux'',
      ''almalinux/amd64'', ''almalinux/arm64v8'', ''almalinux/i386'',
      ''almalinux/ppc64le'', ''almalinux/s390x'',
      ''library/centos'', ''library/oraclelinux'',
      ''redhat/ubi8'', ''redhat/ubi8-init'', ''redhat/ubi8-micro'', ''redhat/ubi8-minimal'',
      ''redhat/ubi9'', ''redhat/ubi9-init'', ''redhat/ubi9-micro'', ''redhat/ubi9-minimal'',
      ''library/rockylinux'', ''rockylinux/rockylinux'']"


section \<open>The table builder (data\_utils.py: add\_total\_column)\<close>

text \<open>
  A table has numeric columns (cells that are numbers or NaN) and columns of other
  types. \<open>df.sum(numeric_only=True, axis=1)\<close> adds, in every row, the cells of the
  numeric columns, a NaN counting as 0.
\<close>

datatype column = NumCol "cell list" | ObjCol "string list"

definition skipna :: "cell \<Rightarrow> int" where
  "skipna x = (case x of None \<Rightarrow> 0 | Some v \<Rightarrow> v)"

fun sum_numeric_only :: "nat \<Rightarrow> (string \<times> column) list \<Rightarrow> int list" where
  "sum_numeric_only n [] = replicate n 0"
| "sum_numeric_only n ((name, NumCol c) # cols) =
     map2 (\<lambda>x s. skipna x + s) c (sum_numeric_only n cols)"
| "sum_numeric_only n ((name, ObjCol c) # cols) = sum_numeric_only n cols"

text \<open>Every column of the list has \<open>n\<close> cells, one for each entry of the index.\<close>

definition columns_of_length :: "nat \<Rightarrow> (string \<times> column) list \<Rightarrow> bool" where
  "columns_of_length n cols \<longleftrightarrow>
     list_all (\<lambda>(name, col). case col of NumCol c \<Rightarrow> length c = n | ObjCol c \<Rightarrow> length c = n) cols"

definition add_total_column :: "('i, column) frame \<Rightarrow> ('i, column) frame" where
  "add_total_column df =
     (let df_copy = df
      in setitem df_copy ''total''
           (NumCol (map Some (sum_numeric_only (length (index df_copy)) (columns df_copy)))))"


section \<open>Concrete inputs\<close>




text \<open>Three usage rows, labelled 0, 1 and 2, that differ in version, age and week.\<close>

definition example_row :: "string \<Rightarrow> int \<Rightarrow> date \<Rightarrow> usage_row" where
  "example_row version age day =
     \<lparr>week_start = (2023, 5, 1), week_end = day, os_name = ''Rocky Linux'',
      os_version = version, os_variant = ''generic'', os_arch = ''x86_64'',
      repo_tag = ''epel-9'', repo_arch = ''x86_64'', sys_age = age, hits = 10\<rparr>"

definition example_rows :: dataframe where
  "example_rows =
     [(0, example_row ''9.6'' 1 (2023, 5, 7)),
      (1, example_row ''9.7'' 2 (2023, 5, 14)),
      (2, example_row ''8.10'' 5 (2023, 5, 21))]"

text \<open>A container frame of three days in which each of the given columns holds the given counters.\<close>

definition example_counters :: "string list \<Rightarrow> int list \<Rightarrow> (date, int list) frame" where
  "example_counters names counters =
     \<lparr>index = [(2024, 1, 1), (2024, 1, 2), (2024, 1, 3)],
      columns = map (\<lambda>name. (name, counters)) names\<rparr>"

text \<open>A table of one date with two numeric columns and no \<open>total\<close> column.\<close>

definition example_table :: "(date, column) frame" where
  "example_table =
     \<lparr>index = [(2024, 1, 1)],
      columns = [(''AlmaLinux'', NumCol [Some 1]), (''Rocky Linux'', NumCol [Some 2])]\<rparr>"


section \<open>Properties of the fetcher\<close>

lemma files_ensure_dir:
  "files (if \<not> path_exists w d then makedirs w d else w) = files w"
  by (simp add: makedirs_def)











text \<open>
  The same holds for every response, whatever its status: once the cache is stale, the
  body received replaces the content of the cache file and the fetch returns normally.
\<close>

lemma write_chunks_concat: "write_chunks ds written = written @ concat ds"
  by (induction ds arbitrary: written) simp_all

lemma download_file_ignores_status:
  assumes "files w (path_join local_dir local_file) = Some f"
    and "now - mtime f > timedelta_days CACHE_DAYS"
    and "net url = Response r" and "length_header r \<noteq> Malformed" and "\<not> broken r"
  shows "fst (download_file net now url local_dir local_file w) = Inr ()
       \<and> files (snd (download_file net now url local_dir local_file w))
            (path_join local_dir local_file)
           = Some \<lparr>content = concat (chunks r), mtime = now\<rparr>"
proof -
  let ?w1 = "if \<not> path_exists w local_dir then makedirs w local_dir else w"
  have f1: "files ?w1 (path_join local_dir local_file) = Some f"
    using assms(1) by (simp only: files_ensure_dir)
  have "download_file net now url local_dir local_file w
        = download_with_progress net now url (path_join local_dir local_file) ?w1"
    unfolding download_file_def Let_def using assms(2) by (simp only: f1) simp
  then show ?thesis
    using assms(3-5)
    by (simp add: download_with_progress_def Let_def write_chunks_concat
        split: content_length.splits)
qed


section \<open>Properties of the EPEL normalizer and the filters\<close>

lemma getitem_mask_column_mask:
  "getitem_mask df (column_mask p df) = filter (\<lambda>(l, r). p r) df"
  unfolding getitem_mask_def column_mask_def
  by (induction df) auto

text \<open>
  Dropping by label the rows a predicate selects removes those rows and no others as
  long as no label occurs twice.
\<close>

lemma drop_matching_labels:
  assumes "distinct (map fst df)"
  shows "drop_labels df (index_labels (filter (\<lambda>(l, r). p r) df))
           = filter (\<lambda>(l, r). \<not> p r) df"
proof -
  have "\<And>l r. (l, r) \<in> set df \<Longrightarrow>
      (l \<in> fst ` {x \<in> set df. case x of (l, r) \<Rightarrow> p r}) = p r"
    using assms by (force dest: eq_key_imp_eq_value)
  then show ?thesis
    unfolding drop_labels_def index_labels_def
    by (auto intro!: filter_cong)
qed

lemma distinct_labels_filter:
  "distinct (map fst df) \<Longrightarrow> distinct (map fst (filter q df))"
  by (simp add: distinct_map_filter)

lemma drop_error_dates_filter:
  "distinct (map fst df) \<Longrightarrow>
   drop_error_dates ds df = filter (\<lambda>(l, r). week_end r \<notin> set ds) df"
proof (induction ds arbitrary: df)
  case Nil
  then show ?case by simp
next
  case (Cons d ds)
  have step: "drop_labels df
        (index_labels (getitem_mask df (column_mask (\<lambda>r. week_end r = d) df)))
      = filter (\<lambda>(l, r). week_end r \<noteq> d) df"
    using Cons.prems by (simp add: getitem_mask_column_mask drop_matching_labels)
  have "distinct (map fst (filter (\<lambda>(l, r). week_end r \<noteq> d) df))"
    using Cons.prems by (rule distinct_labels_filter)
  then show ?case
    using Cons.IH [of "filter (\<lambda>(l, r). week_end r \<noteq> d) df"]
    by (auto simp add: step intro!: filter_cong)
qed

lemma distinct_read_csv: "distinct (map fst (read_csv rows))"
  by (simp add: read_csv_def)

text \<open>
  C6. After the restriction to the EPEL repositories, \<open>load_epel_data\<close> removes the
  rows whose \<open>week_end\<close> is one of the dates of \<open>ERROR_DATES\<close> and keeps every other
  row, whatever its other fields hold: the result is the frame filtered by that one
  test on \<open>week_end\<close>.
\<close>

theorem load_epel_data_drops_exactly_error_dates:
  "load_epel_data rows
     = filter (\<lambda>(l, r). week_end r \<notin> set ERROR_DATES)
         (filter (\<lambda>(l, r). repo_tag r \<in> set EPEL_REPOS) (read_csv rows))"
proof -
  let ?kept = "filter (\<lambda>(l, r). repo_tag r \<in> set EPEL_REPOS) (read_csv rows)"
  have d: "distinct (map fst ?kept)"
    by (rule distinct_labels_filter) (rule distinct_read_csv)
  show ?thesis
    by (simp add: load_epel_data_def Let_def getitem_mask_column_mask
        drop_error_dates_filter [OF d])
qed

text \<open>
  Of the three example rows, whose weeks end on 2023-05-07, 2023-05-14 and 2023-05-21,
  only the last one is left.
\<close>

lemma load_epel_data_example:
  "index_labels (load_epel_data (map snd example_rows)) = [2]"
  by code_simp

text \<open>
  C7. \<open>filter_by_system_age\<close> keeps the rows with \<open>sys_age > 1\<close> for \<open>'longterm'\<close>, the
  rows with \<open>sys_age = 1\<close> for \<open>'ephemeral'\<close>, the rows with \<open>sys_age > n\<close> for an
  integer \<open>n\<close>, and returns the frame as it is for any other string and for any
  argument that is neither a string nor an integer.
\<close>

theorem filter_by_system_age_buckets:
  "filter_by_system_age df (PyStr ''longterm'') = filter (\<lambda>(l, r). sys_age r > 1) df
   \<and> filter_by_system_age df (PyStr ''ephemeral'') = filter (\<lambda>(l, r). sys_age r = 1) df
   \<and> filter_by_system_age df (PyInt n) = filter (\<lambda>(l, r). sys_age r > n) df
   \<and> (s \<noteq> ''longterm'' \<and> s \<noteq> ''ephemeral'' \<longrightarrow> filter_by_system_age df (PyStr s) = df)
   \<and> filter_by_system_age df PyOther = df"
  by (simp add: filter_by_system_age_def getitem_mask_column_mask)

theorem filter_by_system_age_buckets_witness:
  "''weekly'' \<noteq> ''longterm'' \<and> ''weekly'' \<noteq> ''ephemeral''
   \<and> filter_by_system_age example_rows (PyStr ''weekly'') = example_rows
   \<and> filter_by_system_age example_rows PyOther = example_rows
   \<and> index_labels (filter_by_system_age example_rows (PyStr ''longterm'')) = [1, 2]
   \<and> index_labels (filter_by_system_age example_rows (PyStr ''ephemeral'')) = [0]
   \<and> index_labels (filter_by_system_age example_rows (PyInt 2)) = [2]"
  using filter_by_system_age_buckets [of example_rows 2 "''weekly''"]
  by (simp add: example_rows_def example_row_def index_labels_def)

text \<open>
  C8. \<open>filter_valid_rocky_versions\<close> keeps the rows whose \<open>os_version\<close> is in
  \<open>VALID_ROCKY_VERSIONS\<close> and no others: a row of version 9.7 is never in the result,
  a row of version 9.6 of the frame always is.
\<close>

theorem filter_valid_rocky_versions_whitelist:
  "filter_valid_rocky_versions df
     = filter (\<lambda>(l, r). os_version r \<in> set VALID_ROCKY_VERSIONS) df
   \<and> (os_version r = ''9.7'' \<longrightarrow> (l, r) \<notin> set (filter_valid_rocky_versions df))
   \<and> (os_version r = ''9.6'' \<and> (l, r) \<in> set df
        \<longrightarrow> (l, r) \<in> set (filter_valid_rocky_versions df))"
  by (simp add: filter_valid_rocky_versions_def getitem_mask_column_mask
      VALID_ROCKY_VERSIONS_def)

theorem filter_valid_rocky_versions_whitelist_witness:
  "os_version (example_row ''9.7'' 2 (2023, 5, 14)) = ''9.7''
   \<and> (1, example_row ''9.7'' 2 (2023, 5, 14)) \<in> set example_rows
   \<and> (1, example_row ''9.7'' 2 (2023, 5, 14)) \<notin> set (filter_valid_rocky_versions example_rows)
   \<and> os_version (example_row ''9.6'' 1 (2023, 5, 7)) = ''9.6''
   \<and> (0, example_row ''9.6'' 1 (2023, 5, 7)) \<in> set example_rows
   \<and> (0, example_row ''9.6'' 1 (2023, 5, 7)) \<in> set (filter_valid_rocky_versions example_rows)
   \<and> index_labels (filter_valid_rocky_versions example_rows) = [0, 2]"
proof -
  have v7: "os_version (example_row ''9.7'' 2 (2023, 5, 14)) = ''9.7''"
    and v6: "os_version (example_row ''9.6'' 1 (2023, 5, 7)) = ''9.6''"
    by (simp_all add: example_row_def)
  have m7: "(1, example_row ''9.7'' 2 (2023, 5, 14)) \<in> set example_rows"
    and m6: "(0, example_row ''9.6'' 1 (2023, 5, 7)) \<in> set example_rows"
    by (simp_all add: example_rows_def)
  have labels: "index_labels (filter (\<lambda>(l, r). os_version r \<in> set VALID_ROCKY_VERSIONS)
      example_rows) = [0, 2]"
    by (simp add: example_rows_def example_row_def index_labels_def VALID_ROCKY_VERSIONS_def)
  note t7 = filter_valid_rocky_versions_whitelist
      [of example_rows "example_row ''9.7'' 2 (2023, 5, 14)" 1]
  note t6 = filter_valid_rocky_versions_whitelist
      [of example_rows "example_row ''9.6'' 1 (2023, 5, 7)" 0]
  from t7 v7 have out7:
    "(1, example_row ''9.7'' 2 (2023, 5, 14)) \<notin> set (filter_valid_rocky_versions example_rows)"
    by blast
  from t6 v6 m6 have in6:
    "(0, example_row ''9.6'' 1 (2023, 5, 7)) \<in> set (filter_valid_rocky_versions example_rows)"
    by blast
  from t7 labels have kept: "index_labels (filter_valid_rocky_versions example_rows) = [0, 2]"
    by (simp only:)
  from v7 m7 out7 v6 m6 in6 kept show ?thesis
    by (intro conjI)
qed

text \<open>
  C9. Each of the six row filters returns a subsequence of its input frame: the rows
  kept are rows of the input, label and fields as they were, in the order of the input.
  The filters are functions of the frame; none of them writes to it.
\<close>

theorem row_filters_return_subsequences:
  "subseq (filter_by_date df start_date date_column) df
   \<and> subseq (filter_by_system_age df age) df
   \<and> subseq (filter_by_repo_tag df tag) df
   \<and> subseq (filter_by_os_name df name) df
   \<and> subseq (filter_by_arch df arch_filter) df
   \<and> subseq (filter_valid_rocky_versions df) df"
  by (simp add: filter_by_date_def filter_by_system_age_def filter_by_repo_tag_def
      filter_by_os_name_def filter_by_arch_def filter_valid_rocky_versions_def
      getitem_mask_column_mask split: age_condition.splits)


section \<open>Properties of the container normalizer\<close>

lemma columns_delta:
  "columns (iloc_from_1 (diff raw)) = map (\<lambda>(name, c). (name, drop 1 (diff_column c))) (columns raw)"
  by (simp add: iloc_from_1_def diff_def case_prod_unfold)

lemma map_of_delta:
  "map_of (columns (iloc_from_1 (diff raw))) name
     = map_option (\<lambda>c. drop 1 (diff_column c)) (map_of (columns raw) name)"
  by (simp add: columns_delta map_of_map)

lemma drop_diff_column:
  "drop 1 (diff_column c) = map (\<lambda>i. Some (c ! Suc i - c ! i)) [0..<length c - 1]"
proof (cases c)
  case Nil
  then show ?thesis by simp
next
  case (Cons v vs)
  have "map2 (\<lambda>prev cur. Some (cur - prev)) (v # vs) vs
      = map (\<lambda>i. Some ((v # vs) ! Suc i - (v # vs) ! i)) [0..<length vs]"
    by (rule nth_equalityI) simp_all
  then show ?thesis
    using Cons by simp
qed



lemma getitem_cases:
  "(\<exists>c \<in> {name}. map_of (columns df) c = None \<and> getitem df name = Inl (KeyError c))
   \<or> ((\<forall>n \<in> {name}. map_of (columns df) n \<noteq> None) \<and> (\<exists>v. getitem df name = Inr v))"
  by (cases "map_of (columns df) name") (simp_all add: getitem_def)

lemma bind_cases:
  assumes "(\<exists>c \<in> S. P c \<and> r = Inl (KeyError c)) \<or> ((\<forall>n \<in> S. \<not> P n) \<and> (\<exists>v. r = Inr v))"
    and "\<And>v. (\<exists>c \<in> T. P c \<and> k v = Inl (KeyError c)) \<or> ((\<forall>n \<in> T. \<not> P n) \<and> (\<exists>u. k v = Inr u))"
  shows "(\<exists>c \<in> S \<union> T. P c \<and> (case r of Inl e \<Rightarrow> Inl e | Inr v \<Rightarrow> k v) = Inl (KeyError c))
       \<or> ((\<forall>n \<in> S \<union> T. \<not> P n) \<and> (\<exists>u. (case r of Inl e \<Rightarrow> Inl e | Inr v \<Rightarrow> k v) = Inr u))"
proof (cases r)
  case (Inl e)
  with assms(1) show ?thesis by auto
next
  case (Inr v)
  with assms(1) have "\<forall>n \<in> S. \<not> P n" by auto
  with assms(2) [of v] Inr show ?thesis by auto
qed

lemma add_columns_cases:
  "(\<exists>c \<in> set names. map_of (columns df) c = None \<and> add_columns df acc names = Inl (KeyError c))
   \<or> ((\<forall>n \<in> set names. map_of (columns df) n \<noteq> None) \<and> (\<exists>v. add_columns df acc names = Inr v))"
proof (induction names arbitrary: acc)
  case Nil
  then show ?case by simp
next
  case (Cons n ns)
  have "set (n # ns) = {n} \<union> set ns" by simp
  then show ?case
    using bind_cases [of "{n}" "\<lambda>c. map_of (columns df) c = None" "getitem df n" "set ns"
        "\<lambda>c. add_columns df (series_add acc c) ns", OF getitem_cases Cons.IH]
    by (simp only: add_columns.simps)
qed

lemma sum_of_columns_cases:
  "(\<exists>c \<in> {name} \<union> set names. map_of (columns df) c = None
        \<and> sum_of_columns df name names = Inl (KeyError c))
   \<or> ((\<forall>n \<in> {name} \<union> set names. map_of (columns df) n \<noteq> None)
        \<and> (\<exists>v. sum_of_columns df name names = Inr v))"
  unfolding sum_of_columns_def
  by (rule bind_cases [OF getitem_cases add_columns_cases])

lemma map_of_delta_None:
  "map_of (columns (iloc_from_1 (diff raw))) name = None \<longleftrightarrow> map_of (columns raw) name = None"
  by (simp add: map_of_delta)

lemma raw_columns_groups:
  "set raw_columns =
     ({''library/almalinux''} \<union> set
          [''almalinux/8-base'', ''almalinux/8-init'', ''almalinux/8-micro'',
           ''almalinux/8-minimal'', ''almalinux/9-base'', ''almalinux/9-init'',
           ''almalinux/9-micro'', ''almalinux/9-minimal'', ''almalinux/almalinux'',
           ''almalinux/amd64'', ''almalinux/arm64v8'', ''almalinux/i386'',
           ''almalinux/ppc64le'', ''almalinux/s390x''])
     \<union> ({''library/centos''} \<union> ({''library/oraclelinux''}
     \<union> (({''redhat/ubi8''} \<union> set
          [''redhat/ubi8-init'', ''redhat/ubi8-micro'', ''redhat/ubi8-minimal'',
           ''redhat/ubi9'', ''redhat/ubi9-init'', ''redhat/ubi9-micro'',
           ''redhat/ubi9-minimal''])
     \<union> (({''library/rockylinux''} \<union> set [''rockylinux/rockylinux'']) \<union> {}))))"
  unfolding raw_columns_def
  by (simp only: list.set Un_insert_left Un_empty_left Un_empty_right)

lemma load_dockerhub_data_cases:
  "(\<exists>c \<in> set raw_columns. map_of (columns raw) c = None
        \<and> load_dockerhub_data raw = Inl (KeyError c))
   \<or> ((\<forall>n \<in> set raw_columns. map_of (columns raw) n \<noteq> None)
        \<and> (\<exists>out. load_dockerhub_data raw = Inr out))"
proof -
  have last: "(\<exists>c \<in> {}. map_of (columns df) c = None \<and> Inr v = Inl (KeyError c))
      \<or> ((\<forall>n \<in> {}. map_of (columns df) n \<noteq> None) \<and> (\<exists>u. Inr v = Inr u))"
    for df :: "(date, cell list) frame" and v :: "(date, cell list) frame"
    by simp
  show ?thesis
    unfolding load_dockerhub_data_def Let_def raw_columns_groups
      map_of_delta_None [of raw, symmetric]
    by (intro bind_cases sum_of_columns_cases getitem_cases last)
qed

text \<open>
  C3. When a column one of the five aggregation expressions reads is absent from the
  parsed container CSV, \<open>load_dockerhub_data\<close> raises: the call ends with the KeyError
  of a column that is read and absent, and no aggregated frame is returned.
\<close>

theorem load_dockerhub_data_missing_column:
  assumes "name \<in> set raw_columns" and "map_of (columns raw) name = None"
  shows "\<exists>c \<in> set raw_columns. map_of (columns raw) c = None
           \<and> load_dockerhub_data raw = Inl (KeyError c)"
  using load_dockerhub_data_cases [of raw] assms by blast

theorem load_dockerhub_data_missing_column_witness:
  "''almalinux/8-micro'' \<in> set raw_columns
   \<and> map_of (columns (example_counters (removeAll ''almalinux/8-micro'' raw_columns)
         [100, 140, 142])) ''almalinux/8-micro'' = None
   \<and> (\<exists>c \<in> set raw_columns.
         map_of (columns (example_counters (removeAll ''almalinux/8-micro'' raw_columns)
           [100, 140, 142])) c = None
         \<and> load_dockerhub_data (example_counters (removeAll ''almalinux/8-micro'' raw_columns)
             [100, 140, 142]) = Inl (KeyError c))"
proof -
  have h1: "''almalinux/8-micro'' \<in> set raw_columns"
    by (simp add: raw_columns_def)
  have h2: "map_of (columns (example_counters (removeAll ''almalinux/8-micro'' raw_columns)
         [100, 140, 142])) ''almalinux/8-micro'' = None"
    by (simp add: example_counters_def raw_columns_def)
  from h1 h2 load_dockerhub_data_missing_column [OF h1 h2] show ?thesis
    by (intro conjI)
qed

lemma diff_sorted_nonneg:
  assumes "sorted c"
  shows "\<forall>x \<in> set (drop 1 (diff_column c)). \<exists>v. x = Some v \<and> 0 \<le> v"
proof -
  have "c ! i \<le> c ! Suc i" if "i < length c - 1" for i
    using assms that by (intro sorted_nth_mono) simp_all
  then show ?thesis
    unfolding drop_diff_column by auto
qed

lemma series_add_nonneg:
  assumes "\<forall>x \<in> set a. \<exists>v. x = Some v \<and> 0 \<le> v"
    and "\<forall>x \<in> set b. \<exists>v. x = Some v \<and> 0 \<le> v"
  shows "\<forall>x \<in> set (series_add a b). \<exists>v. x = Some v \<and> (0::int) \<le> v"
proof
  fix x assume "x \<in> set (series_add a b)"
  then obtain p q where pq: "(p, q) \<in> set (zip a b)" and x: "x = cell_add p q"
    unfolding series_add_def by auto
  from pq have "p \<in> set a" and "q \<in> set b"
    by (auto dest: set_zip_leftD set_zip_rightD)
  with assms obtain u w where "p = Some u" "0 \<le> u" "q = Some w" "0 \<le> w"
    by blast
  then show "\<exists>v. x = Some v \<and> 0 \<le> v"
    by (simp add: x cell_add_def)
qed

lemma getitem_nonneg:
  assumes "\<forall>(name, c) \<in> set (columns df). \<forall>x \<in> set c. \<exists>v. x = Some v \<and> (0::int) \<le> v"
    and "getitem df name = Inr c"
  shows "\<forall>x \<in> set c. \<exists>v. x = Some v \<and> 0 \<le> v"
proof -
  from assms(2) have "map_of (columns df) name = Some c"
    by (simp add: getitem_def split: option.splits)
  then have "(name, c) \<in> set (columns df)"
    by (rule map_of_SomeD)
  with assms(1) show ?thesis by blast
qed

lemma add_columns_nonneg:
  assumes "\<forall>(name, c) \<in> set (columns df). \<forall>x \<in> set c. \<exists>v. x = Some v \<and> (0::int) \<le> v"
  shows "\<forall>x \<in> set acc. \<exists>v. x = Some v \<and> 0 \<le> v \<Longrightarrow> add_columns df acc names = Inr summed
    \<Longrightarrow> \<forall>x \<in> set summed. \<exists>v. x = Some v \<and> 0 \<le> v"
proof (induction names arbitrary: acc)
  case Nil
  then show ?case by simp
next
  case (Cons n ns)
  from Cons.prems(2) obtain c where c: "getitem df n = Inr c"
    and rest: "add_columns df (series_add acc c) ns = Inr summed"
    by (auto split: sum.splits)
  have "\<forall>x \<in> set (series_add acc c). \<exists>v. x = Some v \<and> 0 \<le> v"
    using Cons.prems(1) getitem_nonneg [OF assms c] by (rule series_add_nonneg)
  then show ?case
    using rest by (rule Cons.IH)
qed

lemma sum_of_columns_nonneg:
  assumes "\<forall>(name, c) \<in> set (columns df). \<forall>x \<in> set c. \<exists>v. x = Some v \<and> (0::int) \<le> v"
    and "sum_of_columns df name names = Inr summed"
  shows "\<forall>x \<in> set summed. \<exists>v. x = Some v \<and> 0 \<le> v"
proof -
  from assms(2) obtain c where c: "getitem df name = Inr c"
    and rest: "add_columns df c names = Inr summed"
    by (auto simp: sum_of_columns_def split: sum.splits)
  show ?thesis
    using getitem_nonneg [OF assms(1) c] rest by (rule add_columns_nonneg [OF assms(1)])
qed

lemma delta_frame_nonneg:
  assumes "\<forall>(name, c) \<in> set (columns raw). sorted c"
  shows "\<forall>(name, c) \<in> set (columns (iloc_from_1 (diff raw))).
           \<forall>x \<in> set c. \<exists>v. x = Some v \<and> 0 \<le> v"
  using assms diff_sorted_nonneg
  unfolding columns_delta by fastforce

text \<open>
  C10. When every column of the parsed container CSV is non-decreasing down its rows,
  every cell of every column of the frame \<open>load_dockerhub_data\<close> returns is a number,
  not NaN, and is not negative. Nothing in the computation clamps a value: the bound
  comes from the order of the counters alone.
\<close>

theorem load_dockerhub_data_nonnegative:
  assumes "\<forall>(name, c) \<in> set (columns raw). sorted c"
    and "load_dockerhub_data raw = Inr out"
  shows "\<forall>(name, c) \<in> set (columns out). \<forall>x \<in> set c. \<exists>v. x = Some v \<and> 0 \<le> v"
proof -
  define df where "df = iloc_from_1 (diff raw)"
  have nn: "\<forall>(name, c) \<in> set (columns df). \<forall>x \<in> set c. \<exists>v. x = Some v \<and> 0 \<le> v"
    unfolding df_def using assms(1) by (rule delta_frame_nonneg)
  from assms(2) obtain alma centos oraclelinux rhel rocky where
    alma: "sum_of_columns df ''library/almalinux''
                [''almalinux/8-base'', ''almalinux/8-init'', ''almalinux/8-micro'',
                 ''almalinux/8-minimal'', ''almalinux/9-base'', ''almalinux/9-init'',
                 ''almalinux/9-micro'', ''almalinux/9-minimal'', ''almalinux/almalinux'',
                 ''almalinux/amd64'', ''almalinux/arm64v8'', ''almalinux/i386'',
                 ''almalinux/ppc64le'', ''almalinux/s390x''] = Inr alma"
    and centos: "getitem df ''library/centos'' = Inr centos"
    and oraclelinux: "getitem df ''library/oraclelinux'' = Inr oraclelinux"
    and rhel: "sum_of_columns df ''redhat/ubi8''
                 [''redhat/ubi8-init'', ''redhat/ubi8-micro'', ''redhat/ubi8-minimal'',
                  ''redhat/ubi9'', ''redhat/ubi9-init'', ''redhat/ubi9-micro'',
                  ''redhat/ubi9-minimal''] = Inr rhel"
    and rocky: "sum_of_columns df ''library/rockylinux'' [''rockylinux/rockylinux''] = Inr rocky"
    and out: "out = setitem (setitem (setitem (setitem (setitem
                 (empty_frame (index df) DH_DISTROS)
                 ''AlmaLinux'' alma) ''CentOS Linux'' centos) ''Oracle Linux Server'' oraclelinux)
                 ''Red Hat Enterprise Linux'' rhel) ''Rocky Linux'' rocky"
    unfolding load_dockerhub_data_def Let_def df_def [symmetric]
    by (auto split: sum.splits)
  have cols: "columns out = [(''AlmaLinux'', alma), (''CentOS Linux'', centos),
      (''Oracle Linux Server'', oraclelinux), (''Red Hat Enterprise Linux'', rhel),
      (''Rocky Linux'', rocky)]"
    unfolding out by (simp add: setitem_def empty_frame_def DH_DISTROS_def)
  show ?thesis
    unfolding cols
    using sum_of_columns_nonneg [OF nn alma] getitem_nonneg [OF nn centos]
      getitem_nonneg [OF nn oraclelinux] sum_of_columns_nonneg [OF nn rhel]
      sum_of_columns_nonneg [OF nn rocky]
    by simp
qed

theorem load_dockerhub_data_nonnegative_witness:
  "list_all (\<lambda>(name, c). sorted c) (columns (example_counters raw_columns [100, 140, 142]))
   \<and> load_dockerhub_data (example_counters raw_columns [100, 140, 142])
       = Inr \<lparr>index = [(2024, 1, 2), (2024, 1, 3)],
              columns = [(''AlmaLinux'', [Some 600, Some 30]),
                         (''CentOS Linux'', [Some 40, Some 2]),
                         (''Oracle Linux Server'', [Some 40, Some 2]),
                         (''Red Hat Enterprise Linux'', [Some 320, Some 16]),
                         (''Rocky Linux'', [Some 80, Some 4])]\<rparr>
   \<and> list_all (\<lambda>(name, c). list_all (\<lambda>x. \<exists>v. x = Some v \<and> (0::int) \<le> v) c)
       [(''AlmaLinux'', [Some 600, Some 30]),
        (''CentOS Linux'', [Some 40, Some 2]),
        (''Oracle Linux Server'', [Some 40, Some 2]),
        (''Red Hat Enterprise Linux'', [Some 320, Some 16]),
        (''Rocky Linux'', [Some 80, Some 4])]"
proof -
  let ?raw = "example_counters raw_columns [100, 140, 142]"
  let ?cols = "[(''AlmaLinux'', [Some 600, Some 30]),
                (''CentOS Linux'', [Some 40, Some 2]),
                (''Oracle Linux Server'', [Some 40, Some 2]),
                (''Red Hat Enterprise Linux'', [Some 320, Some 16]),
                (''Rocky Linux'', [Some 80, Some (4::int)])]"
  let ?out = "\<lparr>index = [(2024, 1, 2), (2024, 1, 3)], columns = ?cols\<rparr> :: (date, cell list) frame"
  have h1: "\<forall>(name, c) \<in> set (columns ?raw). sorted c"
    by (simp add: example_counters_def)
  have h2: "load_dockerhub_data ?raw = Inr ?out"
    by (simp add: load_dockerhub_data_def example_counters_def raw_columns_def
        iloc_from_1_def diff_def sum_of_columns_def getitem_def series_add_def cell_add_def
        setitem_def empty_frame_def DH_DISTROS_def)
  have "\<forall>(name, c) \<in> set (columns ?out). \<forall>x \<in> set c. \<exists>v. x = Some v \<and> 0 \<le> v"
    using h1 h2 by (rule load_dockerhub_data_nonnegative)
  then have "list_all (\<lambda>(name, c). list_all (\<lambda>x. \<exists>v. x = Some v \<and> 0 \<le> v) c) ?cols"
    by (simp only: list_all_iff frame.simps)
  moreover have "list_all (\<lambda>(name, c). sorted c) (columns ?raw)"
    using h1 by (simp only: list_all_iff)
  ultimately show ?thesis
    using h2 by (intro conjI)
qed

text \<open>A counter that falls gives a negative entry: the values are not clamped.\<close>

lemma load_dockerhub_data_falling_counter:
  "load_dockerhub_data (example_counters raw_columns [100, 90, 95])
     = Inr \<lparr>index = [(2024, 1, 2), (2024, 1, 3)],
            columns = [(''AlmaLinux'', [Some (- 150), Some 75]),
                       (''CentOS Linux'', [Some (- 10), Some 5]),
                       (''Oracle Linux Server'', [Some (- 10), Some 5]),
                       (''Red Hat Enterprise Linux'', [Some (- 80), Some 40]),
                       (''Rocky Linux'', [Some (- 20), Some 10])]\<rparr>"
  by (simp add: load_dockerhub_data_def example_counters_def raw_columns_def
      iloc_from_1_def diff_def sum_of_columns_def getitem_def series_add_def cell_add_def
      setitem_def empty_frame_def DH_DISTROS_def)


section \<open>Properties of the table builder\<close>

lemma assign_column_absent:
  "name \<notin> fst ` set cols \<Longrightarrow> assign_column name c cols = cols @ [(name, c)]"
  by (induction cols) auto

lemma map_of_assign_column: "map_of (assign_column name c cols) name = Some c"
  by (induction cols) auto

lemma length_sum_numeric_only:
  "columns_of_length n cols \<Longrightarrow> length (sum_numeric_only n cols) = n"
  by (induction n cols rule: sum_numeric_only.induct) (simp_all add: columns_of_length_def)

lemma nth_sum_numeric_only_append:
  "columns_of_length n cols \<Longrightarrow> length t = n \<Longrightarrow> i < n \<Longrightarrow>
   sum_numeric_only n (cols @ [(name, NumCol t)]) ! i
     = sum_numeric_only n cols ! i + skipna (t ! i)"
proof (induction n cols rule: sum_numeric_only.induct)
  case (1 n)
  then show ?case by simp
next
  case (2 n name' c cols)
  then have ok: "columns_of_length n cols" and len: "length c = n"
    by (simp_all add: columns_of_length_def)
  have "length (sum_numeric_only n (cols @ [(name, NumCol t)])) = n"
    using ok 2(3) by (intro length_sum_numeric_only) (simp add: columns_of_length_def)
  then show ?case
    using 2 ok len length_sum_numeric_only [OF ok] by simp
next
  case (3 n name' c cols)
  then show ?case by (simp add: columns_of_length_def)
qed

text \<open>
  On a table without a \<open>total\<close> column whose columns all have the length of the index,
  the first call writes the row sums and the second call writes their doubles.
\<close>

lemma add_total_column_twice_doubles:
  assumes "columns_of_length (length (index df)) (columns df)" and "''total'' \<notin> fst ` set (columns df)"
  shows "map_of (columns (add_total_column df)) ''total''
           = Some (NumCol (map Some (sum_numeric_only (length (index df)) (columns df))))"
    and "map_of (columns (add_total_column (add_total_column df))) ''total''
           = Some (NumCol (map (\<lambda>s. Some (2 * s))
               (sum_numeric_only (length (index df)) (columns df))))"
proof -
  let ?n = "length (index df)"
  let ?S = "sum_numeric_only ?n (columns df)"
  have len: "length ?S = ?n"
    using assms(1) by (rule length_sum_numeric_only)
  show "map_of (columns (add_total_column df)) ''total'' = Some (NumCol (map Some ?S))"
    by (simp add: add_total_column_def setitem_def map_of_assign_column)
  have cols1: "columns (add_total_column df) = columns df @ [(''total'', NumCol (map Some ?S))]"
    using assms(2) by (simp add: add_total_column_def setitem_def assign_column_absent)
  have idx1: "index (add_total_column df) = index df"
    by (simp add: add_total_column_def setitem_def)
  have "sum_numeric_only ?n (columns df @ [(''total'', NumCol (map Some ?S))])
      = map (\<lambda>s. 2 * s) ?S"
  proof (rule nth_equalityI)
    show "length (sum_numeric_only ?n (columns df @ [(''total'', NumCol (map Some ?S))]))
        = length (map (\<lambda>s. 2 * s) ?S)"
      using assms(1) len by (simp add: length_sum_numeric_only columns_of_length_def)
  next
    fix i assume "i < length (sum_numeric_only ?n (columns df @ [(''total'', NumCol (map Some ?S))]))"
    then have i: "i < ?n"
      using assms(1) len by (simp add: length_sum_numeric_only columns_of_length_def)
    show "sum_numeric_only ?n (columns df @ [(''total'', NumCol (map Some ?S))]) ! i
        = map (\<lambda>s. 2 * s) ?S ! i"
      using nth_sum_numeric_only_append [OF assms(1) _ i, of "map Some ?S" "''total''"] len i
      by (simp add: skipna_def)
  qed
  then show "map_of (columns (add_total_column (add_total_column df))) ''total''
           = Some (NumCol (map (\<lambda>s. Some (2 * s)) ?S))"
    unfolding add_total_column_def [of "add_total_column df"] Let_def idx1 cols1
    by (simp add: setitem_def map_of_assign_column comp_def)
qed

text \<open>
  C2 does not hold of \<open>add_total_column\<close>. The row sum runs over every numeric column,
  the \<open>total\<close> column of the first call among them, so the second call writes the sum
  of the other columns plus the first total: on the example table, with the columns 1
  and 2, the first call gives the total 3 and the second call the total 6.
\<close>

theorem add_total_column_twice_compounds:
  "map_of (columns (add_total_column example_table)) ''total'' = Some (NumCol [Some 3])
   \<and> map_of (columns (add_total_column (add_total_column example_table))) ''total''
       = Some (NumCol [Some 6])"
  by (simp add: add_total_column_def setitem_def example_table_def skipna_def)

end
